theory Spec2Isabelle
  imports Complex_Main "HOL-Library.Sublist" "HOL-Library.Word"
begin

section \<open>Dates, times and the clock\<close>

text \<open>
  The metrics engine of the Epic report generator (\<^verbatim>\<open>core/metrics.py\<close>) works on Python
  \<^verbatim>\<open>date\<close>, timezone-aware \<^verbatim>\<open>datetime\<close> and \<^verbatim>\<open>timedelta\<close> values and on \<^verbatim>\<open>float\<close> story
  points.

  \<^item> A \<^verbatim>\<open>date\<close> is the number of days since 0001-01-01 (\<^verbatim>\<open>toordinal() - 1\<close>); the dates
    Python can represent are \<open>0 .. date_max\<close>.
  \<^item> An aware \<^verbatim>\<open>datetime\<close> is its UTC instant in microseconds since 0001-01-01T00:00:00
    together with its own UTC offset in microseconds. Aware datetimes are ordered by their
    instants; \<^verbatim>\<open>.date()\<close> reads the wall clock, that is instant plus offset.
  \<^item> \<^verbatim>\<open>float\<close> values are real numbers: rounding, infinities and NaN are outside the model.
  \<^item> \<^verbatim>\<open>datetime.now()\<close>, \<^verbatim>\<open>date.today()\<close> and the system time zone used by
    \<^verbatim>\<open>astimezone()\<close> are read from an explicit clock.
  \<^item> A leading underscore of a source name is dropped (\<^verbatim>\<open>_velocity\<close> is \<open>velocity\<close>);
    \<^verbatim>\<open>_progress\<close> is \<open>progress_pct\<close>, the name \<open>progress\<close> being the field of the
    metrics record.
\<close>

type_synonym date = int

record datetime =
  instant :: int
  utcoffset :: int

record clock =
  now :: int
  today :: date
  tz :: "date \<Rightarrow> int"

datatype error = OverflowError

definition day_us :: int where
  "day_us = 86400000000"

definition week_us :: int where
  "week_us = 604800000000"

definition date_max :: date where
  "date_max = 3652058"

definition timedelta_max_days :: int where
  "timedelta_max_days = 999999999"

text \<open>\<^verbatim>\<open>dt.date()\<close>: the calendar day of the wall clock of an aware datetime.\<close>

definition to_date :: "datetime \<Rightarrow> date" where
  "to_date dt = (instant dt + utcoffset dt) div day_us"

text \<open>
  \<^verbatim>\<open>dt + timedelta(days=n)\<close> on an aware datetime: the wall clock moves, the offset stays,
  and a wall clock outside years 1 to 9999 raises.
\<close>

definition datetime_add_days :: "datetime \<Rightarrow> int \<Rightarrow> error + datetime" where
  "datetime_add_days dt n =
     (let wall = instant dt + utcoffset dt + n * day_us
      in if 0 \<le> wall div day_us \<and> wall div day_us \<le> date_max
         then Inr (dt\<lparr>instant := instant dt + n * day_us\<rparr>)
         else Inl OverflowError)"

text \<open>Python 3 \<^verbatim>\<open>round\<close>: to the nearest integer, a tie to the even one.\<close>

definition py_round :: "real \<Rightarrow> int" where
  "py_round x =
     (let f = \<lfloor>x\<rfloor>; r = x - of_int f
      in if r < 1 / 2 then f
         else if 1 / 2 < r then f + 1
         else if even f then f else f + 1)"

text \<open>
  \<^verbatim>\<open>timedelta(weeks=w)\<close> for a float \<open>w\<close>: the duration in microseconds, rounded half to even,
  normalised into days, seconds and microseconds; more than 999999999 days in either
  direction raises. The result is the total number of microseconds.
\<close>

definition timedelta_weeks :: "real \<Rightarrow> error + int" where
  "timedelta_weeks w =
     (let us = py_round (w * of_int week_us); d = us div day_us
      in if - timedelta_max_days \<le> d \<and> d \<le> timedelta_max_days
         then Inr us else Inl OverflowError)"

text \<open>
  \<^verbatim>\<open>d + td\<close> for a date and a timedelta: only the whole days of the timedelta count
  (\<^verbatim>\<open>td.days\<close>, rounded towards minus infinity), and a result outside \<open>0 .. date_max\<close> raises.
\<close>

definition date_add :: "date \<Rightarrow> int \<Rightarrow> error + date" where
  "date_add d td =
     (let o' = d + td div day_us
      in if 0 \<le> o' \<and> o' \<le> date_max then Inr o' else Inl OverflowError)"

text \<open>
  \<^verbatim>\<open>datetime(day.year, day.month, day.day, 23, 59, 59).astimezone()\<close>: the instant at which
  the system's wall clock shows 23:59:59 on that day; \<open>tz clk day\<close> is the system zone's UTC
  offset then.
\<close>

definition day_end :: "clock \<Rightarrow> date \<Rightarrow> int" where
  "day_end clk day = day * day_us + 86399000000 - tz clk day"

section \<open>Data model (\<^verbatim>\<open>core/data_models.py\<close>)\<close>

record JiraIssue =
  key :: string
  summary :: string
  status :: string
  status_category :: string
  resolution :: "string option"
  issue_type :: string
  story_points :: "real option"
  created :: "datetime option"
  resolved :: "datetime option"
  assignee :: "string option"

record EpicData =
  epic_key :: string
  epic_summary :: string
  epic_status :: string
  priority :: "string option"
  epic_assignee :: "string option"
  reporter :: "string option"
  epic_created :: "datetime option"
  updated :: "datetime option"
  labels :: "string list"
  fix_versions :: "string list"
  children :: "JiraIssue list"

record EpicMetrics =
  total_issues :: int
  completed_issues :: int
  open_issues :: int
  unestimated_issues :: int
  total_sp :: real
  completed_sp :: real
  remaining_sp :: real
  progress :: real
  avg_cycle_time_days :: "real option"
  velocity_sp_per_week :: "real option"
  scope_change_pct :: "real option"
  blocked_issues :: int
  forecast_date :: "date option"
  dates :: "date list"
  total_sp_over_time :: "real list"
  completed_sp_over_time :: "real list"
  cumulative_issues :: "int list"
  cumulative_unestimated :: "int list"

text \<open>\<^verbatim>\<open>EpicMetrics()\<close>: every field at its default.\<close>

definition EpicMetrics_default :: EpicMetrics where
  "EpicMetrics_default =
     \<lparr>total_issues = 0, completed_issues = 0, open_issues = 0, unestimated_issues = 0,
      total_sp = 0, completed_sp = 0, remaining_sp = 0, progress = 0,
      avg_cycle_time_days = None, velocity_sp_per_week = None, scope_change_pct = None,
      blocked_issues = 0, forecast_date = None,
      dates = [], total_sp_over_time = [], completed_sp_over_time = [],
      cumulative_issues = [], cumulative_unestimated = []\<rparr>"

section \<open>Metrics engine (\<^verbatim>\<open>core/metrics.py\<close>)\<close>

text \<open>Truth value of an optional float: \<^verbatim>\<open>None\<close> and \<^verbatim>\<open>0\<close> are false.\<close>

fun truthy :: "real option \<Rightarrow> bool" where
  "truthy None = False"
| "truthy (Some x) = (x \<noteq> 0)"

text \<open>
  \<^verbatim>\<open>c.story_points or 0\<close>; also the read of \<^verbatim>\<open>c.story_points\<close> behind the guard
  \<^verbatim>\<open>if c.story_points\<close>, where the two agree.
\<close>

definition sp_or_0 :: "JiraIssue \<Rightarrow> real" where
  "sp_or_0 c = (case story_points c of None \<Rightarrow> 0 | Some x \<Rightarrow> x)"

definition is_done :: "JiraIssue \<Rightarrow> bool" where
  "is_done c = (status_category c = ''Done'')"

definition progress_pct :: "real \<Rightarrow> real \<Rightarrow> int \<Rightarrow> int \<Rightarrow> real" where
  "progress_pct completed_sp' total_sp' completed_issues' total_issues' =
     (if total_issues' = 0 then 0
      else if total_sp' = 0
        then max 0 (min 100 ((of_int completed_issues' / of_int total_issues') * 100))
      else max 0 (min 100
             ((completed_sp' / total_sp') * (of_int completed_issues' / of_int total_issues') * 100)))"

text \<open>The durations, in days, that \<^verbatim>\<open>_avg_cycle_time\<close> collects.\<close>

fun durations :: "JiraIssue list \<Rightarrow> real list" where
  "durations [] = []"
| "durations (c # cs) =
     (case (created c, resolved c) of
        (Some cr, Some rs) \<Rightarrow>
          (if is_done c
           then (of_int (instant rs - instant cr) / 1000000) / 86400 # durations cs
           else durations cs)
      | _ \<Rightarrow> durations cs)"

definition avg_cycle_time :: "JiraIssue list \<Rightarrow> real option" where
  "avg_cycle_time cs =
     (let ds = durations cs
      in if ds \<noteq> [] then Some (sum_list ds / of_nat (length ds)) else None)"

text \<open>The children that \<^verbatim>\<open>_velocity\<close> sums over.\<close>

definition recently_done :: "int \<Rightarrow> JiraIssue \<Rightarrow> bool" where
  "recently_done cutoff c =
     (truthy (story_points c) \<and> is_done c \<and>
      (case resolved c of None \<Rightarrow> False | Some r \<Rightarrow> cutoff \<le> instant r))"

definition velocity :: "clock \<Rightarrow> JiraIssue list \<Rightarrow> int \<Rightarrow> real option" where
  "velocity clk cs weeks =
     (let cutoff = now clk - weeks * week_us;
          sp = sum_list (map sp_or_0 (filter (recently_done cutoff) cs))
      in if sp \<noteq> 0 then Some (sp / of_int weeks) else None)"

text \<open>\<^verbatim>\<open>[(c, c.created) for c in children if c.created is not None]\<close>\<close>

fun dated_of :: "JiraIssue list \<Rightarrow> (JiraIssue \<times> datetime) list" where
  "dated_of [] = []"
| "dated_of (c # cs) =
     (case created c of None \<Rightarrow> dated_of cs | Some dt \<Rightarrow> (c, dt) # dated_of cs)"

definition scope_change :: "JiraIssue list \<Rightarrow> error + real option" where
  "scope_change cs =
     (if length cs < 2 then Inr None
      else
        (case sort_key (\<lambda>pair. instant (snd pair)) (dated_of cs) of
           [] \<Rightarrow> Inr None
         | [p] \<Rightarrow> Inr None
         | first # rest \<Rightarrow>
             (case datetime_add_days (snd first) 7 of
                Inl e \<Rightarrow> Inl e
              | Inr threshold \<Rightarrow>
                  (let added_later =
                         length (filter (\<lambda>pair. instant threshold < instant (snd pair)) (first # rest))
                   in Inr (Some ((of_nat added_later / of_nat (length cs)) * 100))))))"

definition forecast :: "clock \<Rightarrow> real \<Rightarrow> real option \<Rightarrow> error + date option" where
  "forecast clk remaining_sp' velocity' =
     (case velocity' of
        None \<Rightarrow> Inr None
      | Some v \<Rightarrow>
          if v = 0 \<or> v \<le> 0 \<or> remaining_sp' \<le> 0 then Inr None
          else
            (case timedelta_weeks (remaining_sp' / v) of
               Inl e \<Rightarrow> Inl e
             | Inr td \<Rightarrow>
                 (case date_add (today clk) td of
                    Inl e \<Rightarrow> Inl e
                  | Inr d \<Rightarrow> Inr (Some d))))"

text \<open>
  \<^verbatim>\<open>"blocked" in c.status.lower()\<close>: lower-casing of the ASCII letters, and the substring
  test.
\<close>

definition lower_char :: "char \<Rightarrow> char" where
  "lower_char c =
     (case map_of (zip ''ABCDEFGHIJKLMNOPQRSTUVWXYZ'' ''abcdefghijklmnopqrstuvwxyz'') c of
        None \<Rightarrow> c
      | Some l \<Rightarrow> l)"

definition lower :: "string \<Rightarrow> string" where
  "lower s = map lower_char s"

fun contains :: "string \<Rightarrow> string \<Rightarrow> bool" where
  "contains needle [] = (needle = [])"
| "contains needle (x # xs) = (prefix needle (x # xs) \<or> contains needle xs)"

definition is_blocked :: "JiraIssue \<Rightarrow> bool" where
  "is_blocked c = (contains ''blocked'' (lower (status c)) \<and> status_category c \<noteq> ''Done'')"

subsection \<open>The daily time series\<close>

text \<open>\<^verbatim>\<open>min(dt for _, dt in dated)\<close>: the first datetime with the least instant.\<close>

fun min_dt :: "datetime \<Rightarrow> datetime list \<Rightarrow> datetime" where
  "min_dt best [] = best"
| "min_dt best (d # ds) = min_dt (if instant d < instant best then d else best) ds"

text \<open>The five lists the loop of \<^verbatim>\<open>_build_time_series\<close> appends to.\<close>

record series =
  s_dates :: "date list"
  s_total_sp :: "real list"
  s_completed_sp :: "real list"
  s_cum_issues :: "int list"
  s_cum_unest :: "int list"

definition series_empty :: series where
  "series_empty =
     \<lparr>s_dates = [], s_total_sp = [], s_completed_sp = [], s_cum_issues = [], s_cum_unest = []\<rparr>"

definition created_by_day :: "(JiraIssue \<times> datetime) list \<Rightarrow> date \<Rightarrow> JiraIssue list" where
  "created_by_day dated day = map fst (filter (\<lambda>p. to_date (snd p) \<le> day) dated)"

definition resolved_by :: "int \<Rightarrow> JiraIssue \<Rightarrow> bool" where
  "resolved_by end_of_day c =
     (is_done c \<and> (case resolved c of None \<Rightarrow> False | Some r \<Rightarrow> instant r \<le> end_of_day))"

definition done_by_day :: "clock \<Rightarrow> (JiraIssue \<times> datetime) list \<Rightarrow> date \<Rightarrow> JiraIssue list" where
  "done_by_day clk dated day = filter (resolved_by (day_end clk day)) (created_by_day dated day)"

text \<open>One pass of the body of \<^verbatim>\<open>while day <= max_date\<close>.\<close>

definition ts_step :: "clock \<Rightarrow> (JiraIssue \<times> datetime) list \<Rightarrow> date \<Rightarrow> series \<Rightarrow> series" where
  "ts_step clk dated day acc =
     acc\<lparr>s_dates := s_dates acc @ [day],
         s_total_sp := s_total_sp acc @ [sum_list (map sp_or_0 (created_by_day dated day))],
         s_completed_sp := s_completed_sp acc @ [sum_list (map sp_or_0 (done_by_day clk dated day))],
         s_cum_issues := s_cum_issues acc @ [int (length (created_by_day dated day))],
         s_cum_unest := s_cum_unest acc @
           [int (length (filter (\<lambda>c. \<not> truthy (story_points c)) (created_by_day dated day)))]\<rparr>"

function ts_loop ::
  "clock \<Rightarrow> (JiraIssue \<times> datetime) list \<Rightarrow> date \<Rightarrow> date \<Rightarrow> series \<Rightarrow> series" where
  "ts_loop clk dated day max_date acc =
     (if day \<le> max_date then ts_loop clk dated (day + 1) max_date (ts_step clk dated day acc)
      else acc)"
  by pat_completeness auto
termination
  by (relation "measure (\<lambda>(clk, dated, day, max_date, acc). nat (max_date + 1 - day))") auto

definition build_time_series :: "clock \<Rightarrow> EpicMetrics \<Rightarrow> JiraIssue list \<Rightarrow> EpicMetrics" where
  "build_time_series clk m cs =
     (case dated_of cs of
        [] \<Rightarrow> m
      | p # ps \<Rightarrow>
          (let min_date = to_date (min_dt (snd p) (map snd ps));
               max_date = today clk
           in if max_date \<le> min_date then m
              else
                (let s = ts_loop clk (p # ps) min_date max_date series_empty
                 in m\<lparr>dates := s_dates s,
                      total_sp_over_time := s_total_sp s,
                      completed_sp_over_time := s_completed_sp s,
                      cumulative_issues := s_cum_issues s,
                      cumulative_unestimated := s_cum_unest s\<rparr>)))"

subsection \<open>\<^verbatim>\<open>calculate_metrics\<close>\<close>

text \<open>The scalar fields, in the order the source assigns them.\<close>

definition scalar_metrics ::
  "clock \<Rightarrow> JiraIssue list \<Rightarrow> real option \<Rightarrow> date option \<Rightarrow> EpicMetrics" where
  "scalar_metrics clk cs sc fd =
     (let ti = int (length cs);
          ci = int (length (filter is_done cs));
          tsp = sum_list (map sp_or_0 (filter (\<lambda>c. truthy (story_points c)) cs));
          csp = sum_list (map sp_or_0
                  (filter (\<lambda>c. truthy (story_points c) \<and> is_done c) cs))
      in EpicMetrics_default
           \<lparr>total_issues := ti,
            completed_issues := ci,
            open_issues := ti - ci,
            unestimated_issues := int (length (filter (\<lambda>c. \<not> truthy (story_points c)) cs)),
            total_sp := tsp,
            completed_sp := csp,
            remaining_sp := tsp - csp,
            progress := progress_pct csp tsp ci ti,
            avg_cycle_time_days := avg_cycle_time cs,
            velocity_sp_per_week := velocity clk cs 4,
            scope_change_pct := sc,
            blocked_issues := int (length (filter is_blocked cs)),
            forecast_date := fd\<rparr>)"

definition calculate_metrics :: "clock \<Rightarrow> EpicData \<Rightarrow> error + EpicMetrics" where
  "calculate_metrics clk epic =
     (let cs = children epic
      in if cs = [] then Inr EpicMetrics_default
         else
           (case scope_change cs of
              Inl e \<Rightarrow> Inl e
            | Inr sc \<Rightarrow>
                (case forecast clk
                        (sum_list (map sp_or_0 (filter (\<lambda>c. truthy (story_points c)) cs))
                          - sum_list (map sp_or_0
                              (filter (\<lambda>c. truthy (story_points c) \<and> is_done c) cs)))
                        (velocity clk cs 4) of
                   Inl e \<Rightarrow> Inl e
                 | Inr fd \<Rightarrow> Inr (build_time_series clk (scalar_metrics clk cs sc fd) cs))))"

section \<open>Chart renderer (\<^verbatim>\<open>core/chart_generator.py\<close>)\<close>

text \<open>
  The chart is drawn and encoded by matplotlib. The model builds the description of the
  figure that the source hands to matplotlib (palette, weekend bands, the five series)
  and takes the rasteriser and PNG encoder, \<^verbatim>\<open>fig.savefig(buf, format="png", ...)\<close>, as a
  parameter from figures to bytes.
\<close>

type_synonym bytes = "8 word list"

type_synonym palette = "(string \<times> string) list"

definition LIGHT :: palette where
  "LIGHT =
     [(''total_sp'', ''#e0e0e0''), (''done_sp'', ''#4c9aff''), (''cum_issues'', ''#0747a6''),
      (''cum_unest'', ''#8b6914''), (''weekend'', ''#f4f5f7''), (''label_color'', ''#505f79''),
      (''grid'', ''#dfe1e6''), (''bg'', ''#ffffff''), (''face'', ''#ffffff''),
      (''legend_face'', ''#ffffff'')]"

definition DARK :: palette where
  "DARK =
     [(''total_sp'', ''#455a64''), (''done_sp'', ''#2979ff''), (''cum_issues'', ''#82b1ff''),
      (''cum_unest'', ''#ffb74d''), (''weekend'', ''#263238''), (''label_color'', ''#b0bec5''),
      (''grid'', ''#37474f''), (''bg'', ''#1e1e1e''), (''face'', ''#1e1e1e''),
      (''legend_face'', ''#263238'')]"

text \<open>\<^verbatim>\<open>d.weekday()\<close>: 0001-01-01 is a Monday, and Monday is 0.\<close>

definition weekday :: "date \<Rightarrow> int" where
  "weekday d = d mod 7"

text \<open>
  The loop of \<^verbatim>\<open>_draw_weekend_bands\<close>, with its variables \<^verbatim>\<open>in_weekend\<close> and \<^verbatim>\<open>start\<close> and
  the spans passed to \<^verbatim>\<open>axvspan\<close> so far.
\<close>

fun bands_loop ::
  "date list \<Rightarrow> bool \<Rightarrow> date option \<Rightarrow> (date \<times> date) list
     \<Rightarrow> bool \<times> date option \<times> (date \<times> date) list" where
  "bands_loop [] in_weekend start spans = (in_weekend, start, spans)"
| "bands_loop (d # ds) in_weekend start spans =
     (if 5 \<le> weekday d
      then (if \<not> in_weekend then bands_loop ds True (Some d) spans
            else bands_loop ds in_weekend start spans)
      else (case (in_weekend, start) of
              (True, Some s) \<Rightarrow> bands_loop ds False start (spans @ [(s, d)])
            | _ \<Rightarrow> bands_loop ds in_weekend start spans))"

definition draw_weekend_bands :: "date list \<Rightarrow> (date \<times> date) list" where
  "draw_weekend_bands ds =
     (if ds = [] then []
      else
        (case bands_loop ds False None [] of
           (True, Some s, spans) \<Rightarrow> spans @ [(s, last ds)]
         | (_, _, spans) \<Rightarrow> spans))"

record figure =
  fig_dpi :: nat
  fig_palette :: palette
  fig_weekend_bands :: "(date \<times> date) list"
  fig_dates :: "date list"
  fig_total_sp :: "real list"
  fig_completed_sp :: "real list"
  fig_cumulative_issues :: "int list"
  fig_cumulative_unestimated :: "int list"

definition generate_epic_chart ::
  "(figure \<Rightarrow> bytes) \<Rightarrow> EpicMetrics \<Rightarrow> nat \<Rightarrow> bool \<Rightarrow> bytes option" where
  "generate_epic_chart savefig metrics dpi dark =
     (if dates metrics = [] then None
      else
        (let pal = (if dark then DARK else LIGHT)
         in Some (savefig
              \<lparr>fig_dpi = dpi,
               fig_palette = pal,
               fig_weekend_bands = draw_weekend_bands (dates metrics),
               fig_dates = dates metrics,
               fig_total_sp = total_sp_over_time metrics,
               fig_completed_sp = completed_sp_over_time metrics,
               fig_cumulative_issues = cumulative_issues metrics,
               fig_cumulative_unestimated = cumulative_unestimated metrics\<rparr>)))"

text \<open>The eight bytes every PNG file starts with.\<close>

definition png_signature :: bytes where
  "png_signature = [0x89, 0x50, 0x4E, 0x47, 0x0D, 0x0A, 0x1A, 0x0A]"

section \<open>The metrics sidebar of a per-Epic page (\<^verbatim>\<open>core/pdf_generator.py\<close>)\<close>

text \<open>
  A value cell of the sidebar table holds one string. \<open>Text s\<close> is a literal,
  \<open>IntText n\<close> is \<^verbatim>\<open>str(n)\<close>, \<open>Fixed k x suffix\<close> is the f-string that prints \<open>x\<close> with \<open>k\<close>
  decimals followed by \<open>suffix\<close>, and \<open>DateText d fmt\<close> is \<^verbatim>\<open>_fmt_date(d, fmt)\<close>.
\<close>

datatype cell = Text string | IntText int | Fixed nat real string | DateText date string

definition build_summary_box :: "EpicMetrics \<Rightarrow> (string \<times> cell) list" where
  "build_summary_box metrics =
     [(''<b>Summary</b>'', Text []),
      (''Total Issues'', IntText (total_issues metrics)),
      (''Completed'', IntText (completed_issues metrics)),
      (''Open'', IntText (open_issues metrics)),
      (''Unestimated'', IntText (unestimated_issues metrics)),
      (''Total SP'', Fixed 0 (total_sp metrics) []),
      (''Done SP'', Fixed 0 (completed_sp metrics) []),
      (''Remaining SP'', Fixed 0 (remaining_sp metrics) []),
      (''Avg Cycle Time'',
         (case avg_cycle_time_days metrics of
            None \<Rightarrow> Text ''N/A''
          | Some x \<Rightarrow> if x \<noteq> 0 then Fixed 1 x '' days'' else Text ''N/A'')),
      (''<b>Additional</b>'', Text []),
      (''Velocity (4wk)'',
         (case velocity_sp_per_week metrics of
            None \<Rightarrow> Text ''N/A''
          | Some x \<Rightarrow> if x \<noteq> 0 then Fixed 1 x '' SP/wk'' else Text ''N/A'')),
      (''Scope Change'',
         (case scope_change_pct metrics of
            None \<Rightarrow> Text ''N/A''
          | Some x \<Rightarrow> Fixed 0 x ''%'')),
      (''Blocked'', IntText (blocked_issues metrics)),
      (''Forecast'',
         (case forecast_date metrics of
            None \<Rightarrow> Text ''N/A''
          | Some d \<Rightarrow> DateText d ''%b %d, %Y''))]"

section \<open>Reference definitions\<close>

text \<open>
  The quantities of the written specification that the source computes along another
  route, stated here in the specification's terms and compared with the source below.
\<close>

text \<open>
  A child is done within the lookback window of \<open>weeks\<close> weeks when its status category is
  \<^verbatim>\<open>"Done"\<close> and it has a resolution time that is not before now minus \<open>weeks\<close> weeks.
\<close>

definition done_in_window :: "clock \<Rightarrow> int \<Rightarrow> JiraIssue \<Rightarrow> bool" where
  "done_in_window clk weeks c =
     (status_category c = ''Done'' \<and>
      (case resolved c of None \<Rightarrow> False | Some r \<Rightarrow> now clk - weeks * 604800000000 \<le> instant r))"

text \<open>The story points of the children done within the window, an unestimated child counting 0.\<close>

definition recent_points :: "clock \<Rightarrow> int \<Rightarrow> JiraIssue list \<Rightarrow> real" where
  "recent_points clk weeks cs =
     (\<Sum>c \<leftarrow> filter (done_in_window clk weeks) cs. case story_points c of None \<Rightarrow> 0 | Some x \<Rightarrow> x)"

text \<open>The creation instants of the children that have a creation time.\<close>

definition created_instants :: "JiraIssue list \<Rightarrow> int list" where
  "created_instants cs = concat (map (\<lambda>c. case created c of None \<Rightarrow> [] | Some dt \<Rightarrow> [instant dt]) cs)"

text \<open>The number of children created more than seven days after the earliest creation time.\<close>

definition created_later :: "JiraIssue list \<Rightarrow> nat" where
  "created_later cs =
     length (filter (\<lambda>t. Min (set (created_instants cs)) + 7 * 86400000000 < t) (created_instants cs))"

section \<open>Test fixtures\<close>

text \<open>
  The fixtures of \<^verbatim>\<open>tests/test_metrics.py\<close>: \<^verbatim>\<open>_make_issue\<close> and \<^verbatim>\<open>_make_epic\<close>, timestamps in
  UTC, and a clock that reads noon UTC on day 739000 on a machine whose zone is UTC.
\<close>

definition utc :: "int \<Rightarrow> datetime" where
  "utc i = \<lparr>instant = i, utcoffset = 0\<rparr>"

definition make_issue ::
  "string \<Rightarrow> string \<Rightarrow> real option \<Rightarrow> datetime option \<Rightarrow> datetime option \<Rightarrow> JiraIssue" where
  "make_issue k cat sp cr rs =
     \<lparr>key = k, summary = ''Issue '' @ k,
      status = (if cat \<noteq> ''Done'' then ''Open'' else ''Done''),
      status_category = cat,
      resolution = (if cat = ''Done'' then Some ''Done'' else None),
      issue_type = ''Story'', story_points = sp, created = cr, resolved = rs,
      assignee = Some ''Test User''\<rparr>"

definition make_epic :: "JiraIssue list \<Rightarrow> EpicData" where
  "make_epic cs =
     \<lparr>epic_key = ''PROJ-100'', epic_summary = ''Test Epic'', epic_status = ''In Progress'',
      priority = Some ''Medium'', epic_assignee = Some ''Owner'', reporter = Some ''Reporter'',
      epic_created = None, updated = None, labels = [], fix_versions = [], children = cs\<rparr>"

definition noon :: "date \<Rightarrow> int" where
  "noon d = d * 86400000000 + 43200000000"

definition test_clock :: clock where
  "test_clock = \<lparr>now = noon 739000, today = 739000, tz = (\<lambda>d. 0)\<rparr>"

text \<open>No children.\<close>

definition epic_empty :: EpicData where
  "epic_empty = make_epic []"

text \<open>One of two issues done, five points each, both created three days ago.\<close>

definition epic_partial :: EpicData where
  "epic_partial =
     make_epic
       [make_issue ''T-1'' ''Done'' (Some 5) (Some (utc (noon 738997))) (Some (utc (noon 739000))),
        make_issue ''T-2'' ''To Do'' (Some 5) (Some (utc (noon 738997))) None]"

text \<open>One of two issues done, no story points.\<close>

definition epic_unpointed :: EpicData where
  "epic_unpointed =
     make_epic
       [make_issue ''T-1'' ''Done'' None (Some (utc (noon 738997))) (Some (utc (noon 739000))),
        make_issue ''T-2'' ''To Do'' None (Some (utc (noon 738997))) None]"

text \<open>Eight points done yesterday, one point open: a velocity of 2 and half a week to go.\<close>

definition epic_half_week :: EpicData where
  "epic_half_week =
     make_epic
       [make_issue ''T-1'' ''Done'' (Some 8) (Some (utc (noon 738997))) (Some (utc (noon 738999))),
        make_issue ''T-2'' ''To Do'' (Some 1) (Some (utc (noon 738998))) None]"

text \<open>An issue resolved at the instant it was created.\<close>

definition epic_instant :: EpicData where
  "epic_instant =
     make_epic
       [make_issue ''T-1'' ''Done'' (Some 3) (Some (utc (noon 738999))) (Some (utc (noon 738999)))]"

text \<open>Three issues: one ten days old, one two days old, one without a creation time.\<close>

definition epic_grown :: EpicData where
  "epic_grown =
     make_epic
       [make_issue ''T-1'' ''To Do'' (Some 3) (Some (utc (noon 738990))) None,
        make_issue ''T-2'' ''To Do'' (Some 2) (Some (utc (noon 738998))) None,
        make_issue ''T-3'' ''To Do'' None None None]"

text \<open>Five points done six weeks ago, nothing since.\<close>

definition epic_stale :: EpicData where
  "epic_stale =
     make_epic
       [make_issue ''T-1'' ''Done'' (Some 5) None (Some (utc (noon 738958))),
        make_issue ''T-2'' ''To Do'' (Some 3) (Some (utc (noon 738998))) None]"

text \<open>What \<^verbatim>\<open>calculate_metrics\<close> returns for the fixtures at the test clock.\<close>

definition metrics_partial :: EpicMetrics where
  "metrics_partial =
     \<lparr>total_issues = 2, completed_issues = 1, open_issues = 1, unestimated_issues = 0,
      total_sp = 10, completed_sp = 5, remaining_sp = 5, progress = 25,
      avg_cycle_time_days = Some 3, velocity_sp_per_week = Some (5 / 4),
      scope_change_pct = Some 0, blocked_issues = 0, forecast_date = Some 739028,
      dates = [738997, 738998, 738999, 739000], total_sp_over_time = [10, 10, 10, 10],
      completed_sp_over_time = [0, 0, 0, 5], cumulative_issues = [2, 2, 2, 2],
      cumulative_unestimated = [0, 0, 0, 0]\<rparr>"

definition metrics_unpointed :: EpicMetrics where
  "metrics_unpointed =
     \<lparr>total_issues = 2, completed_issues = 1, open_issues = 1, unestimated_issues = 2,
      total_sp = 0, completed_sp = 0, remaining_sp = 0, progress = 50,
      avg_cycle_time_days = Some 3, velocity_sp_per_week = None,
      scope_change_pct = Some 0, blocked_issues = 0, forecast_date = None,
      dates = [738997, 738998, 738999, 739000], total_sp_over_time = [0, 0, 0, 0],
      completed_sp_over_time = [0, 0, 0, 0], cumulative_issues = [2, 2, 2, 2],
      cumulative_unestimated = [2, 2, 2, 2]\<rparr>"

definition metrics_half_week :: EpicMetrics where
  "metrics_half_week =
     \<lparr>total_issues = 2, completed_issues = 1, open_issues = 1, unestimated_issues = 0,
      total_sp = 9, completed_sp = 8, remaining_sp = 1, progress = 400 / 9,
      avg_cycle_time_days = Some 2, velocity_sp_per_week = Some 2,
      scope_change_pct = Some 0, blocked_issues = 0, forecast_date = Some 739003,
      dates = [738997, 738998, 738999, 739000], total_sp_over_time = [8, 9, 9, 9],
      completed_sp_over_time = [0, 0, 8, 8], cumulative_issues = [1, 2, 2, 2],
      cumulative_unestimated = [0, 0, 0, 0]\<rparr>"

definition metrics_instant :: EpicMetrics where
  "metrics_instant =
     \<lparr>total_issues = 1, completed_issues = 1, open_issues = 0, unestimated_issues = 0,
      total_sp = 3, completed_sp = 3, remaining_sp = 0, progress = 100,
      avg_cycle_time_days = Some 0, velocity_sp_per_week = Some (3 / 4),
      scope_change_pct = None, blocked_issues = 0, forecast_date = None,
      dates = [738999, 739000], total_sp_over_time = [3, 3],
      completed_sp_over_time = [3, 3], cumulative_issues = [1, 1],
      cumulative_unestimated = [0, 0]\<rparr>"

definition metrics_grown :: EpicMetrics where
  "metrics_grown =
     \<lparr>total_issues = 3, completed_issues = 0, open_issues = 3, unestimated_issues = 1,
      total_sp = 5, completed_sp = 0, remaining_sp = 5, progress = 0,
      avg_cycle_time_days = None, velocity_sp_per_week = None,
      scope_change_pct = Some (100 / 3), blocked_issues = 0, forecast_date = None,
      dates = [738990, 738991, 738992, 738993, 738994, 738995, 738996, 738997, 738998,
               738999, 739000],
      total_sp_over_time = [3, 3, 3, 3, 3, 3, 3, 3, 5, 5, 5],
      completed_sp_over_time = [0, 0, 0, 0, 0, 0, 0, 0, 0, 0, 0],
      cumulative_issues = [1, 1, 1, 1, 1, 1, 1, 1, 2, 2, 2],
      cumulative_unestimated = [0, 0, 0, 0, 0, 0, 0, 0, 0, 0, 0]\<rparr>"

definition metrics_stale :: EpicMetrics where
  "metrics_stale =
     \<lparr>total_issues = 2, completed_issues = 1, open_issues = 1, unestimated_issues = 0,
      total_sp = 8, completed_sp = 5, remaining_sp = 3, progress = 125 / 4,
      avg_cycle_time_days = None, velocity_sp_per_week = None,
      scope_change_pct = None, blocked_issues = 0, forecast_date = None,
      dates = [738998, 738999, 739000], total_sp_over_time = [3, 3, 3],
      completed_sp_over_time = [0, 0, 0], cumulative_issues = [1, 1, 1],
      cumulative_unestimated = [0, 0, 0]\<rparr>"

text \<open>An encoder for the tests: the PNG signature followed by one byte for the resolution.\<close>

definition savefig_test :: "figure \<Rightarrow> bytes" where
  "savefig_test fig = png_signature @ [of_nat (fig_dpi fig)]"

text \<open>Five points on one day, then an issue with minus three points the day after.\<close>

definition epic_negative :: EpicData where
  "epic_negative =
     make_epic
       [make_issue ''T-1'' ''To Do'' (Some 5) (Some (utc (noon 738997))) None,
        make_issue ''T-2'' ''To Do'' (Some (- 3)) (Some (utc (noon 738998))) None]"

definition metrics_negative :: EpicMetrics where
  "metrics_negative =
     \<lparr>total_issues = 2, completed_issues = 0, open_issues = 2, unestimated_issues = 0,
      total_sp = 2, completed_sp = 0, remaining_sp = 2, progress = 0,
      avg_cycle_time_days = None, velocity_sp_per_week = None,
      scope_change_pct = Some 0, blocked_issues = 0, forecast_date = None,
      dates = [738997, 738998, 738999, 739000], total_sp_over_time = [5, 2, 2, 2],
      completed_sp_over_time = [0, 0, 0, 0], cumulative_issues = [1, 2, 2, 2],
      cumulative_unestimated = [0, 0, 0, 0]\<rparr>"

section \<open>Proofs: structure of the result\<close>

lemma build_time_series_scalars:
  "total_issues (build_time_series clk m cs) = total_issues m"
  "completed_issues (build_time_series clk m cs) = completed_issues m"
  "open_issues (build_time_series clk m cs) = open_issues m"
  "unestimated_issues (build_time_series clk m cs) = unestimated_issues m"
  "total_sp (build_time_series clk m cs) = total_sp m"
  "completed_sp (build_time_series clk m cs) = completed_sp m"
  "remaining_sp (build_time_series clk m cs) = remaining_sp m"
  "progress (build_time_series clk m cs) = progress m"
  "avg_cycle_time_days (build_time_series clk m cs) = avg_cycle_time_days m"
  "velocity_sp_per_week (build_time_series clk m cs) = velocity_sp_per_week m"
  "scope_change_pct (build_time_series clk m cs) = scope_change_pct m"
  "blocked_issues (build_time_series clk m cs) = blocked_issues m"
  "forecast_date (build_time_series clk m cs) = forecast_date m"
  by (simp_all add: build_time_series_def Let_def split: list.split)

lemma calculate_metrics_nonempty:
  assumes "calculate_metrics clk epic = Inr m" and "children epic \<noteq> []"
  obtains sc fd where
    "scope_change (children epic) = Inr sc"
    "forecast clk
       (sum_list (map sp_or_0 (filter (\<lambda>c. truthy (story_points c)) (children epic)))
         - sum_list (map sp_or_0
             (filter (\<lambda>c. truthy (story_points c) \<and> is_done c) (children epic))))
       (velocity clk (children epic) 4) = Inr fd"
    "m = build_time_series clk (scalar_metrics clk (children epic) sc fd) (children epic)"
  using assms
  by (auto simp: calculate_metrics_def Let_def split: sum.splits)

lemma scalar_metrics_fields:
  "total_issues (scalar_metrics clk cs sc fd) = int (length cs)"
  "completed_issues (scalar_metrics clk cs sc fd) = int (length (filter is_done cs))"
  "total_sp (scalar_metrics clk cs sc fd) =
     sum_list (map sp_or_0 (filter (\<lambda>c. truthy (story_points c)) cs))"
  "completed_sp (scalar_metrics clk cs sc fd) =
     sum_list (map sp_or_0 (filter (\<lambda>c. truthy (story_points c) \<and> is_done c) cs))"
  "remaining_sp (scalar_metrics clk cs sc fd) =
     sum_list (map sp_or_0 (filter (\<lambda>c. truthy (story_points c)) cs))
       - sum_list (map sp_or_0 (filter (\<lambda>c. truthy (story_points c) \<and> is_done c) cs))"
  "progress (scalar_metrics clk cs sc fd) =
     progress_pct
       (sum_list (map sp_or_0 (filter (\<lambda>c. truthy (story_points c) \<and> is_done c) cs)))
       (sum_list (map sp_or_0 (filter (\<lambda>c. truthy (story_points c)) cs)))
       (int (length (filter is_done cs))) (int (length cs))"
  "velocity_sp_per_week (scalar_metrics clk cs sc fd) = velocity clk cs 4"
  "scope_change_pct (scalar_metrics clk cs sc fd) = sc"
  "forecast_date (scalar_metrics clk cs sc fd) = fd"
  "avg_cycle_time_days (scalar_metrics clk cs sc fd) = avg_cycle_time cs"
  by (simp_all add: scalar_metrics_def Let_def EpicMetrics_default_def)

text \<open>
  Claim C9. For an Epic whose list of children is empty, \<open>calculate_metrics\<close> returns the
  default metrics: every count and every story-point sum is 0, the progress is 0, the average
  cycle time, the velocity, the scope change and the forecast date are \<open>None\<close>, and the five
  time series, the dates among them, are empty.
\<close>

theorem empty_epic_default_metrics:
  assumes "children epic = []"
  shows "calculate_metrics clk epic =
     Inr \<lparr>total_issues = 0, completed_issues = 0, open_issues = 0, unestimated_issues = 0,
      total_sp = 0, completed_sp = 0, remaining_sp = 0, progress = 0,
      avg_cycle_time_days = None, velocity_sp_per_week = None, scope_change_pct = None,
      blocked_issues = 0, forecast_date = None,
      dates = [], total_sp_over_time = [], completed_sp_over_time = [],
      cumulative_issues = [], cumulative_unestimated = []\<rparr>"
  using assms by (simp add: calculate_metrics_def EpicMetrics_default_def)

text \<open>
  Claim C1. For an Epic with at least one child, the progress that \<open>calculate_metrics\<close>
  returns is the issue ratio times 100, clamped to 0..100, when no story points are tracked
  (\<open>total_sp = 0\<close>); it is the story-point ratio times the issue ratio times 100, clamped to
  0..100, when \<open>total_sp > 0\<close>; and it lies between 0 and 100 in every case.
\<close>

theorem progress_formula:
  assumes "children epic \<noteq> []" and "calculate_metrics clk epic = Inr m"
  shows "(total_sp m = 0 \<longrightarrow>
            progress m = max 0 (min 100
              (real_of_int (completed_issues m) / real_of_int (total_issues m) * 100)))
       \<and> (0 < total_sp m \<longrightarrow>
            progress m = max 0 (min 100
              ((completed_sp m / total_sp m)
                 * (real_of_int (completed_issues m) / real_of_int (total_issues m)) * 100)))
       \<and> 0 \<le> progress m \<and> progress m \<le> 100"
proof -
  obtain sc fd where
    m: "m = build_time_series clk (scalar_metrics clk (children epic) sc fd) (children epic)"
    by (rule calculate_metrics_nonempty[OF assms(2,1)])
  have ti: "total_issues m \<noteq> 0"
    using assms(1) by (simp add: m build_time_series_scalars scalar_metrics_fields)
  have p: "progress m =
      progress_pct (completed_sp m) (total_sp m) (completed_issues m) (total_issues m)"
    by (simp add: m build_time_series_scalars scalar_metrics_fields)
  show ?thesis
    using ti unfolding p progress_pct_def by auto
qed

section \<open>Proofs: the time series\<close>

declare ts_loop.simps [simp del]

lemma ts_loop_foldl:
  "ts_loop clk dated day mx acc = foldl (\<lambda>a d. ts_step clk dated d a) acc [day..mx]"
proof (induction clk dated day mx acc rule: ts_loop.induct)
  case (1 clk dated day max_date acc)
  show ?case
  proof (cases "day \<le> max_date")
    case True
    with "1.IH" show ?thesis
      by (subst ts_loop.simps) (simp add: upto_rec1[of day max_date])
  next
    case False
    then show ?thesis
      by (subst ts_loop.simps) simp
  qed
qed

lemma foldl_ts_step:
  "s_dates (foldl (\<lambda>a d. ts_step clk dated d a) acc ds) = s_dates acc @ ds"
  "s_total_sp (foldl (\<lambda>a d. ts_step clk dated d a) acc ds) =
     s_total_sp acc @ map (\<lambda>d. sum_list (map sp_or_0 (created_by_day dated d))) ds"
  "s_completed_sp (foldl (\<lambda>a d. ts_step clk dated d a) acc ds) =
     s_completed_sp acc @ map (\<lambda>d. sum_list (map sp_or_0 (done_by_day clk dated d))) ds"
  "s_cum_issues (foldl (\<lambda>a d. ts_step clk dated d a) acc ds) =
     s_cum_issues acc @ map (\<lambda>d. int (length (created_by_day dated d))) ds"
  "s_cum_unest (foldl (\<lambda>a d. ts_step clk dated d a) acc ds) =
     s_cum_unest acc @
       map (\<lambda>d. int (length (filter (\<lambda>c. \<not> truthy (story_points c)) (created_by_day dated d))))
         ds"
  by (induction ds arbitrary: acc) (simp_all add: ts_step_def)

lemma dated_of_subset: "p \<in> set (dated_of cs) \<Longrightarrow> fst p \<in> set cs"
  by (induction cs) (auto split: option.splits)

lemma calculate_metrics_series:
  assumes "calculate_metrics clk epic = Inr m"
  obtains lo hi dated where
    "\<forall>p \<in> set dated. fst p \<in> set (children epic)"
    "dates m = [lo..hi]"
    "total_sp_over_time m = map (\<lambda>d. sum_list (map sp_or_0 (created_by_day dated d))) [lo..hi]"
    "completed_sp_over_time m =
       map (\<lambda>d. sum_list (map sp_or_0 (done_by_day clk dated d))) [lo..hi]"
    "cumulative_issues m = map (\<lambda>d. int (length (created_by_day dated d))) [lo..hi]"
    "cumulative_unestimated m =
       map (\<lambda>d. int (length (filter (\<lambda>c. \<not> truthy (story_points c)) (created_by_day dated d))))
         [lo..hi]"
proof (cases "children epic = []")
  case True
  with assms have "m = EpicMetrics_default"
    by (simp add: calculate_metrics_def)
  then show ?thesis
    using that[of "[]" 1 0] by (simp add: EpicMetrics_default_def)
next
  case False
  from assms False obtain sc fd where
    m: "m = build_time_series clk (scalar_metrics clk (children epic) sc fd) (children epic)"
    by (rule calculate_metrics_nonempty)
  let ?m0 = "scalar_metrics clk (children epic) sc fd"
  have m0: "dates ?m0 = []" "total_sp_over_time ?m0 = []" "completed_sp_over_time ?m0 = []"
    "cumulative_issues ?m0 = []" "cumulative_unestimated ?m0 = []"
    by (simp_all add: scalar_metrics_def Let_def EpicMetrics_default_def)
  show ?thesis
  proof (cases "dated_of (children epic)")
    case Nil
    then have "m = ?m0" by (simp add: m build_time_series_def)
    then show ?thesis using that[of "[]" 1 0] m0 by simp
  next
    case (Cons p ps)
    let ?lo = "to_date (min_dt (snd p) (map snd ps))"
    show ?thesis
    proof (cases "today clk \<le> ?lo")
      case True
      then have "m = ?m0" by (simp add: m build_time_series_def Cons Let_def)
      then show ?thesis using that[of "[]" 1 0] m0 by simp
    next
      case False
      have sub: "\<forall>q \<in> set (p # ps). fst q \<in> set (children epic)"
        using dated_of_subset[of _ "children epic"] Cons by simp
      show ?thesis
        using False
        by (intro that[of "p # ps" ?lo "today clk"] sub)
           (simp_all add: m build_time_series_def Cons Let_def ts_loop_foldl foldl_ts_step
              series_empty_def)
    qed
  qed
qed

text \<open>
  Claim C2. In the metrics that \<open>calculate_metrics\<close> returns, each of the four value series
  is as long as \<open>dates\<close>; in particular all of them are empty when \<open>dates\<close> is empty.
\<close>

theorem time_series_lengths:
  assumes "calculate_metrics clk epic = Inr m"
  shows "length (total_sp_over_time m) = length (dates m)
       \<and> length (completed_sp_over_time m) = length (dates m)
       \<and> length (cumulative_issues m) = length (dates m)
       \<and> length (cumulative_unestimated m) = length (dates m)
       \<and> (dates m = [] \<longrightarrow>
            total_sp_over_time m = [] \<and> completed_sp_over_time m = []
            \<and> cumulative_issues m = [] \<and> cumulative_unestimated m = [])"
proof -
  from assms obtain lo hi dated where
    "dates m = [lo..hi]"
    "total_sp_over_time m = map (\<lambda>d. sum_list (map sp_or_0 (created_by_day dated d))) [lo..hi]"
    "completed_sp_over_time m =
       map (\<lambda>d. sum_list (map sp_or_0 (done_by_day clk dated d))) [lo..hi]"
    "cumulative_issues m = map (\<lambda>d. int (length (created_by_day dated d))) [lo..hi]"
    "cumulative_unestimated m =
       map (\<lambda>d. int (length (filter (\<lambda>c. \<not> truthy (story_points c)) (created_by_day dated d))))
         [lo..hi]"
    by (rule calculate_metrics_series)
  then show ?thesis by simp
qed

lemma length_filter_mono:
  "(\<And>x. x \<in> set xs \<Longrightarrow> P x \<Longrightarrow> Q x) \<Longrightarrow> length (filter P xs) \<le> length (filter Q xs)"
  by (induction xs) auto

lemma sum_list_filter_mono:
  fixes f :: "'a \<Rightarrow> real"
  assumes "\<And>x. x \<in> set xs \<Longrightarrow> P x \<Longrightarrow> Q x" and "\<And>x. x \<in> set xs \<Longrightarrow> 0 \<le> f x"
  shows "sum_list (map f (filter P xs)) \<le> sum_list (map f (filter Q xs))"
  using assms
proof (induction xs)
  case Nil
  then show ?case by simp
next
  case (Cons x xs)
  then have "sum_list (map f (filter P xs)) \<le> sum_list (map f (filter Q xs))" and "0 \<le> f x"
    by simp_all
  moreover have "P x \<Longrightarrow> Q x" using Cons.prems(1) by simp
  ultimately show ?case by auto
qed

lemma sorted_map_upto:
  fixes f :: "int \<Rightarrow> 'a::linorder"
  assumes "\<And>x y. x \<le> y \<Longrightarrow> f x \<le> f y"
  shows "sorted (map f [lo..hi])"
proof -
  have "sorted_wrt (\<lambda>x y. f x \<le> f y) [lo..hi]"
    using sorted_upto[of lo hi] assms by (rule sorted_wrt_mono_rel[rotated]) 
  then show ?thesis by (simp add: sorted_map)
qed

lemma sorted_step: "sorted xs \<Longrightarrow> i + 1 < length xs \<Longrightarrow> xs ! i \<le> xs ! (i + 1)"
  by (simp add: sorted_nth_mono)

lemma day_end_mono:
  assumes "\<forall>d. tz clk (d + 1) - tz clk d \<le> day_us" and "d \<le> d'"
  shows "day_end clk d \<le> day_end clk d'"
  using assms(2)
proof (induction d' rule: int_ge_induct)
  case base
  show ?case by simp
next
  case (step i)
  have "tz clk (i + 1) - tz clk i \<le> day_us" using assms(1) by blast
  then have "day_end clk i \<le> day_end clk (i + 1)"
    by (simp add: day_end_def day_us_def algebra_simps)
  with step show ?case by simp
qed

lemma created_by_day_as_filter:
  "created_by_day dated d = map fst (filter (\<lambda>p. to_date (snd p) \<le> d) dated)"
  "filter U (created_by_day dated d) =
     map fst (filter (\<lambda>p. to_date (snd p) \<le> d \<and> U (fst p)) dated)"
  by (simp_all add: created_by_day_def filter_map comp_def conj_commute)

lemma cum_issues_mono:
  "d \<le> d' \<Longrightarrow> length (created_by_day dated d) \<le> length (created_by_day dated d')"
  by (auto simp: created_by_day_as_filter(1) intro!: length_filter_mono)

lemma cum_unest_mono:
  "d \<le> d' \<Longrightarrow> length (filter U (created_by_day dated d)) \<le> length (filter U (created_by_day dated d'))"
  by (auto simp: created_by_day_as_filter(2) intro!: length_filter_mono)

lemma total_sp_mono:
  assumes "\<And>p. p \<in> set dated \<Longrightarrow> 0 \<le> sp_or_0 (fst p)" and "d \<le> d'"
  shows "sum_list (map sp_or_0 (created_by_day dated d))
       \<le> sum_list (map sp_or_0 (created_by_day dated d'))"
  using sum_list_filter_mono[of dated "\<lambda>p. to_date (snd p) \<le> d" "\<lambda>p. to_date (snd p) \<le> d'"
          "\<lambda>p. sp_or_0 (fst p)"] assms
  by (simp add: created_by_day_as_filter(1) comp_def)

lemma resolved_by_mono: "e \<le> e' \<Longrightarrow> resolved_by e c \<Longrightarrow> resolved_by e' c"
  by (auto simp: resolved_by_def split: option.splits)

lemma completed_sp_mono:
  assumes "\<And>p. p \<in> set dated \<Longrightarrow> 0 \<le> sp_or_0 (fst p)"
    and "\<forall>d. tz clk (d + 1) - tz clk d \<le> day_us" and "d \<le> d'"
  shows "sum_list (map sp_or_0 (done_by_day clk dated d))
       \<le> sum_list (map sp_or_0 (done_by_day clk dated d'))"
proof -
  have "day_end clk d \<le> day_end clk d'"
    using assms(2,3) by (rule day_end_mono)
  then have "\<And>p. to_date (snd p) \<le> d \<and> resolved_by (day_end clk d) (fst p)
        \<Longrightarrow> to_date (snd p) \<le> d' \<and> resolved_by (day_end clk d') (fst p)"
    using assms(3) resolved_by_mono by force
  then show ?thesis
    using sum_list_filter_mono[of dated
            "\<lambda>p. to_date (snd p) \<le> d \<and> resolved_by (day_end clk d) (fst p)"
            "\<lambda>p. to_date (snd p) \<le> d' \<and> resolved_by (day_end clk d') (fst p)"
            "\<lambda>p. sp_or_0 (fst p)"] assms(1)
    by (simp add: done_by_day_def created_by_day_as_filter(2) comp_def)
qed

text \<open>
  Claim C3, as amended. In the metrics that \<open>calculate_metrics\<close> returns, the two issue-count
  series, \<open>cumulative_issues\<close> and \<open>cumulative_unestimated\<close>, are non-decreasing from every
  index to the next, for every Epic. \<open>total_sp_over_time\<close> is non-decreasing when no child has
  negative story points. \<open>completed_sp_over_time\<close> is non-decreasing when, in addition, the
  end of a day in the system's time zone never comes before the end of the day before, that
  is, the zone's UTC offset does not grow by more than 24 hours from one day to the next.
\<close>

theorem time_series_nondecreasing:
  assumes ok: "calculate_metrics clk epic = Inr m"
    and i: "i + 1 < length (dates m)"
  shows "cumulative_issues m ! i \<le> cumulative_issues m ! (i + 1)
       \<and> cumulative_unestimated m ! i \<le> cumulative_unestimated m ! (i + 1)
       \<and> ((\<forall>c \<in> set (children epic). \<forall>x. story_points c = Some x \<longrightarrow> 0 \<le> x)
            \<longrightarrow> total_sp_over_time m ! i \<le> total_sp_over_time m ! (i + 1))
       \<and> ((\<forall>c \<in> set (children epic). \<forall>x. story_points c = Some x \<longrightarrow> 0 \<le> x)
            \<and> (\<forall>d. tz clk (d + 1) - tz clk d \<le> day_us)
            \<longrightarrow> completed_sp_over_time m ! i \<le> completed_sp_over_time m ! (i + 1))"
proof -
  from ok obtain lo hi dated where
    sub: "\<forall>p \<in> set dated. fst p \<in> set (children epic)" and
    ds: "dates m = [lo..hi]" and
    ts: "total_sp_over_time m = map (\<lambda>d. sum_list (map sp_or_0 (created_by_day dated d))) [lo..hi]" and
    cs: "completed_sp_over_time m =
       map (\<lambda>d. sum_list (map sp_or_0 (done_by_day clk dated d))) [lo..hi]" and
    ci: "cumulative_issues m = map (\<lambda>d. int (length (created_by_day dated d))) [lo..hi]" and
    cu: "cumulative_unestimated m =
       map (\<lambda>d. int (length (filter (\<lambda>c. \<not> truthy (story_points c)) (created_by_day dated d))))
         [lo..hi]"
    by (rule calculate_metrics_series)
  have len: "i + 1 < length (cumulative_issues m)" "i + 1 < length (total_sp_over_time m)"
    "i + 1 < length (completed_sp_over_time m)" "i + 1 < length (cumulative_unestimated m)"
    using i by (simp_all add: ds ts cs ci cu)
  have "sorted (cumulative_issues m)"
    unfolding ci by (rule sorted_map_upto) (simp add: cum_issues_mono)
  then have issues: "cumulative_issues m ! i \<le> cumulative_issues m ! (i + 1)"
    using len(1) by (rule sorted_step)
  have "sorted (cumulative_unestimated m)"
    unfolding cu by (rule sorted_map_upto) (simp add: cum_unest_mono)
  then have unest: "cumulative_unestimated m ! i \<le> cumulative_unestimated m ! (i + 1)"
    using len(4) by (rule sorted_step)
  have total: "total_sp_over_time m ! i \<le> total_sp_over_time m ! (i + 1)"
    if nn: "\<forall>c \<in> set (children epic). \<forall>x. story_points c = Some x \<longrightarrow> 0 \<le> x"
  proof -
    have pos: "\<And>p. p \<in> set dated \<Longrightarrow> 0 \<le> sp_or_0 (fst p)"
      using sub nn by (auto simp: sp_or_0_def split: option.splits)
    have "sorted (total_sp_over_time m)"
      unfolding ts by (rule sorted_map_upto) (rule total_sp_mono[OF pos])
    then show ?thesis using len(2) by (rule sorted_step)
  qed
  have completed: "completed_sp_over_time m ! i \<le> completed_sp_over_time m ! (i + 1)"
    if nn: "\<forall>c \<in> set (children epic). \<forall>x. story_points c = Some x \<longrightarrow> 0 \<le> x"
      and tzm: "\<forall>d. tz clk (d + 1) - tz clk d \<le> day_us"
  proof -
    have pos: "\<And>p. p \<in> set dated \<Longrightarrow> 0 \<le> sp_or_0 (fst p)"
      using sub nn by (auto simp: sp_or_0_def split: option.splits)
    have "sorted (completed_sp_over_time m)"
      unfolding cs by (rule sorted_map_upto) (rule completed_sp_mono[OF pos tzm])
    then show ?thesis using len(3) by (rule sorted_step)
  qed
  from issues unest total completed show ?thesis by blast
qed

section \<open>Proofs: velocity\<close>

lemma sum_list_truthy_filter:
  "sum_list (map sp_or_0 (filter (\<lambda>c. truthy (story_points c) \<and> P c) cs))
     = sum_list (map sp_or_0 (filter P cs))"
proof (induction cs)
  case Nil
  show ?case by simp
next
  case (Cons c cs)
  have "\<not> truthy (story_points c) \<Longrightarrow> sp_or_0 c = 0"
    by (cases "story_points c") (simp_all add: sp_or_0_def)
  with Cons show ?case by simp
qed

lemma velocity_recent_points:
  "velocity clk cs weeks =
     (if recent_points clk weeks cs = 0 then None
      else Some (recent_points clk weeks cs / of_int weeks))"
proof -
  have "recently_done (now clk - weeks * week_us) =
          (\<lambda>c. truthy (story_points c) \<and> done_in_window clk weeks c)"
    by (rule ext) (simp add: recently_done_def done_in_window_def is_done_def week_us_def)
  then have "sum_list (map sp_or_0 (filter (recently_done (now clk - weeks * week_us)) cs))
      = recent_points clk weeks cs"
    using sum_list_truthy_filter[of "done_in_window clk weeks" cs]
    by (simp add: recent_points_def sp_or_0_def[abs_def])
  then show ?thesis
    by (simp add: velocity_def Let_def)
qed

lemma recent_points_none:
  "\<forall>c \<in> set cs. \<not> done_in_window clk weeks c \<Longrightarrow> recent_points clk weeks cs = 0"
proof -
  assume "\<forall>c \<in> set cs. \<not> done_in_window clk weeks c"
  then have "filter (done_in_window clk weeks) cs = []"
    by (simp add: filter_empty_conv)
  then show ?thesis by (simp add: recent_points_def)
qed

lemma calculate_metrics_velocity:
  assumes "calculate_metrics clk epic = Inr m"
  shows "velocity_sp_per_week m = velocity clk (children epic) 4"
proof (cases "children epic = []")
  case True
  with assms have "m = EpicMetrics_default" by (simp add: calculate_metrics_def)
  with True show ?thesis by (simp add: EpicMetrics_default_def velocity_def)
next
  case False
  from assms False obtain sc fd where
    "m = build_time_series clk (scalar_metrics clk (children epic) sc fd) (children epic)"
    by (rule calculate_metrics_nonempty)
  then show ?thesis by (simp add: build_time_series_scalars scalar_metrics_fields)
qed

text \<open>
  Claim C5. The velocity that \<open>calculate_metrics\<close> returns is the sum of the story points of
  the children that are done and were resolved within the last four weeks (at or after now
  minus four weeks), divided by 4, and \<open>None\<close> when that sum is zero. In particular it is
  \<open>None\<close> when no child was resolved as done within the window, whatever was completed before.
\<close>

theorem velocity_recent_done:
  assumes "calculate_metrics clk epic = Inr m"
  shows "velocity_sp_per_week m =
           (if recent_points clk 4 (children epic) = 0 then None
            else Some (recent_points clk 4 (children epic) / 4))
       \<and> ((\<forall>c \<in> set (children epic). \<not> done_in_window clk 4 c)
            \<longrightarrow> velocity_sp_per_week m = None)"
  using calculate_metrics_velocity[OF assms] recent_points_none[of "children epic" clk 4]
  by (simp add: velocity_recent_points)

section \<open>Proofs: scope change\<close>

lemma created_instants_dated: "created_instants cs = map (\<lambda>p. instant (snd p)) (dated_of cs)"
  by (induction cs) (simp_all add: created_instants_def split: option.split)

lemma length_dated_of: "length (dated_of cs) \<le> length cs"
  by (induction cs) (simp_all split: option.split)

lemma length_filter_sort_key:
  "length (filter P (sort_key f xs)) = length (filter P xs)"
  by (simp add: filter_sort)

lemma hd_sort_key_Min:
  assumes "sort_key f xs = y # ys"
  shows "f y = Min (set (map f xs))"
proof -
  have s: "sorted (map f (y # ys))"
    using sorted_sort_key[of f xs] assms by simp
  have "set xs = set (y # ys)"
    using set_sort[of f xs] assms by simp
  then have e: "set (map f xs) = set (map f (y # ys))"
    by (simp only: set_map)
  have "Min (set (map f (y # ys))) = f y"
    using s by (intro Min_eqI) auto
  with e show ?thesis by simp
qed

lemma datetime_add_days_instant:
  "datetime_add_days dt n = Inr dt' \<Longrightarrow> instant dt' = instant dt + n * day_us"
  by (auto simp: datetime_add_days_def Let_def split: if_splits)

lemma scope_change_value:
  assumes "scope_change cs = Inr sc"
  shows "sc = (if length (created_instants cs) < 2 then None
               else Some (real (created_later cs) / real (length cs) * 100))"
proof (cases "length cs < 2")
  case True
  with assms have "sc = None" by (simp add: scope_change_def)
  moreover have "length (created_instants cs) < 2"
    using True length_dated_of[of cs] by (simp add: created_instants_dated)
  ultimately show ?thesis by simp
next
  case False
  let ?k = "\<lambda>pair::JiraIssue \<times> datetime. instant (snd pair)"
  let ?srt = "sort_key ?k (dated_of cs)"
  have len: "length ?srt = length (created_instants cs)"
    by (simp add: created_instants_dated)
  show ?thesis
  proof (cases ?srt)
    case Nil
    with assms False len show ?thesis by (simp add: scope_change_def)
  next
    case (Cons first rest)
    show ?thesis
    proof (cases rest)
      case Nil
      with assms False len Cons show ?thesis by (simp add: scope_change_def)
    next
      case (Cons r rs)
      note srt = \<open>?srt = first # rest\<close>
      from assms False srt Cons obtain threshold where
        th: "datetime_add_days (snd first) 7 = Inr threshold" and
        sc: "sc = Some (real (length (filter (\<lambda>pair. instant threshold < ?k pair) ?srt))
                    / real (length cs) * 100)"
        by (auto simp: scope_change_def Let_def split: sum.splits)
      have "instant threshold = ?k first + 7 * day_us"
        using datetime_add_days_instant[OF th] by simp
      also have "?k first = Min (set (created_instants cs))"
        using hd_sort_key_Min[OF srt] by (simp add: created_instants_dated)
      finally have thr: "instant threshold = Min (set (created_instants cs)) + 7 * 86400000000"
        by (simp add: day_us_def)
      have "length (filter (\<lambda>pair. instant threshold < ?k pair) ?srt)
          = length (filter (\<lambda>pair. instant threshold < ?k pair) (dated_of cs))"
        by (rule length_filter_sort_key)
      also have "\<dots> = created_later cs"
        by (simp add: created_later_def created_instants_dated filter_map comp_def thr)
      finally show ?thesis
        using sc len srt Cons by simp
    qed
  qed
qed

lemma calculate_metrics_scope_change:
  assumes "calculate_metrics clk epic = Inr m"
  shows "scope_change_pct m =
           (if length (created_instants (children epic)) < 2 then None
            else Some (real (created_later (children epic))
                         / real (length (children epic)) * 100))"
    and "total_issues m = int (length (children epic))"
proof -
  show "total_issues m = int (length (children epic))"
  proof (cases "children epic = []")
    case True
    with assms have "m = EpicMetrics_default" by (simp add: calculate_metrics_def)
    with True show ?thesis by (simp add: EpicMetrics_default_def)
  next
    case False
    from assms False obtain sc fd where
      "m = build_time_series clk (scalar_metrics clk (children epic) sc fd) (children epic)"
      by (rule calculate_metrics_nonempty)
    then show ?thesis by (simp add: build_time_series_scalars scalar_metrics_fields)
  qed
  show "scope_change_pct m =
           (if length (created_instants (children epic)) < 2 then None
            else Some (real (created_later (children epic))
                         / real (length (children epic)) * 100))"
  proof (cases "children epic = []")
    case True
    with assms have "m = EpicMetrics_default" by (simp add: calculate_metrics_def)
    with True show ?thesis by (simp add: EpicMetrics_default_def created_instants_def)
  next
    case False
    from assms False obtain sc fd where
      sc: "scope_change (children epic) = Inr sc" and
      "m = build_time_series clk (scalar_metrics clk (children epic) sc fd) (children epic)"
      by (rule calculate_metrics_nonempty)
    then have "scope_change_pct m = sc"
      by (simp add: build_time_series_scalars scalar_metrics_fields)
    with scope_change_value[OF sc] show ?thesis by simp
  qed
qed

text \<open>
  Claim C6. The scope change that \<open>calculate_metrics\<close> returns is \<open>None\<close> when fewer than two
  children have a creation time. Otherwise it is the number of children created more than
  seven days after the earliest creation time, divided by the number of all children, times
  100.
\<close>

theorem scope_change_pct_formula:
  assumes "calculate_metrics clk epic = Inr m"
  shows "scope_change_pct m =
           (if length (created_instants (children epic)) < 2 then None
            else Some (real (created_later (children epic)) / real_of_int (total_issues m) * 100))"
  using calculate_metrics_scope_change[OF assms] by simp

lemma ratio_to_pct:
  assumes "(a::nat) < b"
  shows "0 \<le> real a / real b * 100 \<and> real a / real b * 100 < 100"
proof -
  have "real a / real b < 1" using assms by simp
  then have "real a / real b * 100 < 1 * 100"
    by (rule mult_strict_right_mono) simp
  then show ?thesis by simp
qed

lemma created_later_less:
  assumes "created_instants cs \<noteq> []"
  shows "created_later cs < length cs"
proof -
  let ?ts = "created_instants cs"
  have "Min (set ?ts) \<in> set ?ts"
    using assms by (intro Min_in) simp_all
  moreover have "\<not> Min (set ?ts) + 7 * 86400000000 < Min (set ?ts)"
    by simp
  ultimately have "created_later cs < length ?ts"
    unfolding created_later_def by (intro length_filter_less)
  also have "length ?ts \<le> length cs"
    using length_dated_of[of cs] by (simp add: created_instants_dated)
  finally show ?thesis .
qed

text \<open>
  Claim C10. A scope change that is not \<open>None\<close> is at least 0 and below 100: the earliest child
  is never later than itself by seven days, so not every child is counted.
\<close>

theorem scope_change_pct_below_100:
  assumes "calculate_metrics clk epic = Inr m" and "scope_change_pct m = Some x"
  shows "0 \<le> x \<and> x < 100"
proof -
  let ?cs = "children epic"
  from calculate_metrics_scope_change(1)[OF assms(1)] assms(2)
  have ne: "\<not> length (created_instants ?cs) < 2"
    and x: "x = real (created_later ?cs) / real (length ?cs) * 100"
    by (simp_all split: if_splits)
  from ne have "created_instants ?cs \<noteq> []" by auto
  then have lt: "created_later ?cs < length ?cs"
    by (rule created_later_less)
  show ?thesis
    unfolding x using lt by (rule ratio_to_pct)
qed

section \<open>The fixtures, evaluated\<close>

lemmas fixture_defs =
  utc_def make_issue_def make_epic_def noon_def test_clock_def
  epic_empty_def epic_partial_def epic_unpointed_def epic_half_week_def epic_instant_def
  epic_grown_def epic_stale_def epic_negative_def

lemmas metrics_defs =
  calculate_metrics_def scalar_metrics_def build_time_series_def EpicMetrics_default_def
  progress_pct_def avg_cycle_time_def velocity_def recently_done_def scope_change_def
  forecast_def timedelta_weeks_def py_round_def date_add_def datetime_add_days_def
  to_date_def day_end_def day_us_def week_us_def date_max_def timedelta_max_days_def
  sp_or_0_def is_done_def is_blocked_def lower_def lower_char_def
  created_by_day_def done_by_day_def resolved_by_def ts_step_def series_empty_def
  ts_loop_foldl Let_def

lemma calculate_metrics_partial:
  "calculate_metrics test_clock epic_partial = Inr metrics_partial"
  by (simp add: fixture_defs metrics_defs metrics_partial_def)

lemma calculate_metrics_unpointed:
  "calculate_metrics test_clock epic_unpointed = Inr metrics_unpointed"
  by (simp add: fixture_defs metrics_defs metrics_unpointed_def)

lemma calculate_metrics_half_week:
  "calculate_metrics test_clock epic_half_week = Inr metrics_half_week"
  by (simp add: fixture_defs metrics_defs metrics_half_week_def)

lemma calculate_metrics_instant:
  "calculate_metrics test_clock epic_instant = Inr metrics_instant"
  by (simp add: fixture_defs metrics_defs metrics_instant_def)

lemma calculate_metrics_grown:
  "calculate_metrics test_clock epic_grown = Inr metrics_grown"
  by (simp add: fixture_defs metrics_defs metrics_grown_def)

lemma calculate_metrics_stale:
  "calculate_metrics test_clock epic_stale = Inr metrics_stale"
  by (simp add: fixture_defs metrics_defs metrics_stale_def)

lemma calculate_metrics_empty:
  "calculate_metrics test_clock epic_empty = Inr EpicMetrics_default"
  by (simp add: calculate_metrics_def epic_empty_def make_epic_def)

lemma calculate_metrics_negative:
  "calculate_metrics test_clock epic_negative = Inr metrics_negative"
  by (simp add: fixture_defs metrics_defs metrics_negative_def)

section \<open>Proofs: forecast, chart and sidebar\<close>

lemma forecast_value:
  assumes "forecast clk r v = Inr fd"
  shows "fd = (case v of
                 None \<Rightarrow> None
               | Some x \<Rightarrow>
                   if 0 < x \<and> 0 < r
                   then Some (today clk + py_round (r / x * 604800000000) div 86400000000)
                   else None)"
proof (cases v)
  case None
  with assms show ?thesis by (simp add: forecast_def)
next
  case (Some x)
  show ?thesis
  proof (cases "0 < x \<and> 0 < r")
    case False
    with assms Some show ?thesis by (auto simp: forecast_def)
  next
    case True
    with assms Some show ?thesis
      by (auto simp: forecast_def timedelta_weeks_def date_add_def Let_def week_us_def
            day_us_def split: sum.splits if_splits)
  qed
qed

lemma calculate_metrics_forecast:
  assumes "calculate_metrics clk epic = Inr m"
  shows "forecast_date m =
           (case velocity_sp_per_week m of
              None \<Rightarrow> None
            | Some v \<Rightarrow>
                if 0 < v \<and> 0 < remaining_sp m
                then Some (today clk
                             + py_round (remaining_sp m / v * 604800000000) div 86400000000)
                else None)"
proof (cases "children epic = []")
  case True
  with assms have "m = EpicMetrics_default" by (simp add: calculate_metrics_def)
  then show ?thesis by (simp add: EpicMetrics_default_def)
next
  case False
  from assms False obtain sc fd where
    fd: "forecast clk
       (sum_list (map sp_or_0 (filter (\<lambda>c. truthy (story_points c)) (children epic)))
         - sum_list (map sp_or_0
             (filter (\<lambda>c. truthy (story_points c) \<and> is_done c) (children epic))))
       (velocity clk (children epic) 4) = Inr fd" and
    m: "m = build_time_series clk (scalar_metrics clk (children epic) sc fd) (children epic)"
    by (rule calculate_metrics_nonempty)
  have "forecast_date m = fd" and "velocity clk (children epic) 4 = velocity_sp_per_week m"
    and "sum_list (map sp_or_0 (filter (\<lambda>c. truthy (story_points c)) (children epic)))
         - sum_list (map sp_or_0
             (filter (\<lambda>c. truthy (story_points c) \<and> is_done c) (children epic)))
         = remaining_sp m"
    by (simp_all add: m build_time_series_scalars scalar_metrics_fields)
  with fd have "forecast clk (remaining_sp m) (velocity_sp_per_week m) = Inr (forecast_date m)"
    by simp
  then show ?thesis by (rule forecast_value)
qed

text \<open>
  Claim C4, as amended. The forecast date that \<open>calculate_metrics\<close> returns is \<open>None\<close> unless
  the velocity is a positive number and the remaining story points are positive. Otherwise it
  is today plus the whole days of \<^verbatim>\<open>timedelta(weeks=remaining_sp/velocity)\<close>: the weeks are
  taken with their fraction, turned into microseconds (rounded half to even), and the part of
  a day that remains is dropped. Nothing rounds the weeks up to a whole number.
\<close>

theorem forecast_date_whole_days:
  assumes "calculate_metrics clk epic = Inr m"
  shows "forecast_date m =
           (case velocity_sp_per_week m of
              None \<Rightarrow> None
            | Some v \<Rightarrow>
                if 0 < v \<and> 0 < remaining_sp m
                then Some (today clk
                             + py_round (remaining_sp m / v * 604800000000) div 86400000000)
                else None)"
  using assms by (rule calculate_metrics_forecast)

text \<open>
  The claim as written asks for today plus \<open>\<lceil>remaining_sp / velocity\<rceil>\<close> weeks. With one
  point remaining at a velocity of two points per week that is a week from today; the source
  answers three days from today.
\<close>

theorem forecast_date_not_ceil_weeks:
  "calculate_metrics test_clock epic_half_week = Inr metrics_half_week
   \<and> velocity_sp_per_week metrics_half_week = Some 2
   \<and> remaining_sp metrics_half_week = 1
   \<and> forecast_date metrics_half_week = Some (today test_clock + 3)
   \<and> forecast_date metrics_half_week
       \<noteq> Some (today test_clock + 7 * \<lceil>remaining_sp metrics_half_week / 2\<rceil>)"
  by (simp add: calculate_metrics_half_week)
     (simp add: metrics_half_week_def test_clock_def ceiling_def)

theorem forecast_date_whole_days_witness:
  "calculate_metrics test_clock epic_partial = Inr metrics_partial
   \<and> velocity_sp_per_week metrics_partial = Some (5 / 4)
   \<and> remaining_sp metrics_partial = 5
   \<and> forecast_date metrics_partial = Some (today test_clock + 28)"
  using forecast_date_whole_days[OF calculate_metrics_partial]
  by (simp add: calculate_metrics_partial) (simp add: metrics_partial_def test_clock_def)

text \<open>
  Claim C7. \<open>generate_epic_chart\<close> returns \<open>None\<close> exactly when \<open>metrics.dates\<close> is empty. With
  dates it returns the bytes the PNG encoder produced, which begin with the PNG signature;
  that every output of the encoder begins so is matplotlib's part and is assumed of the
  parameter \<open>savefig\<close>.
\<close>

theorem chart_none_iff_no_dates:
  assumes "\<And>fig. take 8 (savefig fig) = png_signature"
  shows "(generate_epic_chart savefig metrics dpi dark = None \<longleftrightarrow> dates metrics = [])
       \<and> (dates metrics \<noteq> [] \<longrightarrow>
            (\<exists>data. generate_epic_chart savefig metrics dpi dark = Some data
                    \<and> take 8 data = png_signature))"
  using assms by (simp add: generate_epic_chart_def Let_def)

theorem chart_none_iff_no_dates_witness:
  "generate_epic_chart savefig_test metrics_partial 150 False
     = Some [0x89, 0x50, 0x4E, 0x47, 0x0D, 0x0A, 0x1A, 0x0A, 150]
   \<and> generate_epic_chart savefig_test EpicMetrics_default 150 False = None"
proof -
  have "\<And>fig. take 8 (savefig_test fig) = png_signature"
    by (simp add: savefig_test_def png_signature_def)
  from chart_none_iff_no_dates[of savefig_test, OF this] show ?thesis
    by (simp add: generate_epic_chart_def savefig_test_def png_signature_def
          metrics_partial_def EpicMetrics_default_def)
qed

text \<open>
  Claim C8 asks for \<^verbatim>\<open>N/A\<close> in the sidebar exactly when the optional metric is \<open>None\<close>. The
  cell for the average cycle time tests the truth value of the number instead, so an average
  of 0 days, here from an issue resolved at the instant it was created, is shown as \<^verbatim>\<open>N/A\<close>
  although the metric is \<open>Some 0\<close>. The cell for the scope change tests \<^verbatim>\<open>is not None\<close>.
\<close>

theorem sidebar_avg_cycle_time_zero_shows_NA:
  "calculate_metrics test_clock epic_instant = Inr metrics_instant
   \<and> avg_cycle_time_days metrics_instant = Some 0
   \<and> map_of (build_summary_box metrics_instant) ''Avg Cycle Time'' = Some (Text ''N/A'')"
  by (simp add: calculate_metrics_instant) (simp add: metrics_instant_def build_summary_box_def)

lemma py_round_bounds: "\<lfloor>x\<rfloor> \<le> py_round x \<and> py_round x \<le> \<lceil>x\<rceil>"
proof (cases "x = of_int \<lfloor>x\<rfloor>")
  case True
  then have "x - of_int \<lfloor>x\<rfloor> < 1 / 2" by simp
  then have "py_round x = \<lfloor>x\<rfloor>" by (simp add: py_round_def Let_def)
  then show ?thesis by (simp add: floor_le_ceiling)
next
  case False
  then have "\<lceil>x\<rceil> = \<lfloor>x\<rfloor> + 1" by (simp add: ceiling_altdef)
  then show ?thesis by (simp add: py_round_def Let_def)
qed

lemma div_lower: "(k::int) * 86400000000 \<le> a \<Longrightarrow> k \<le> a div 86400000000"
proof -
  assume "k * 86400000000 \<le> a"
  then have "(k * 86400000000) div 86400000000 \<le> a div 86400000000"
    by (rule zdiv_mono1) simp
  then show ?thesis by simp
qed

lemma div_upper: "a \<le> (k::int) * 86400000000 \<Longrightarrow> a div 86400000000 \<le> k"
proof -
  assume "a \<le> k * 86400000000"
  then have "a div 86400000000 \<le> (k * 86400000000) div 86400000000"
    by (rule zdiv_mono1) simp
  then show ?thesis by simp
qed

lemma timedelta_days_bounds:
  "\<lfloor>7 * w\<rfloor> \<le> py_round (w * 604800000000) div 86400000000
   \<and> py_round (w * 604800000000) div 86400000000 \<le> \<lceil>7 * w\<rceil>"
proof -
  define x where "x = w * 604800000000"
  have x: "x = (7 * w) * 86400000000" by (simp add: x_def)
  have "of_int \<lfloor>7 * w\<rfloor> * 86400000000 \<le> (7 * w) * (86400000000::real)"
    by (rule mult_right_mono) simp_all
  then have "of_int (\<lfloor>7 * w\<rfloor> * 86400000000) \<le> x"
    by (simp only: x of_int_mult of_int_numeral)
  then have "\<lfloor>7 * w\<rfloor> * 86400000000 \<le> \<lfloor>x\<rfloor>"
    by (simp only: le_floor_iff)
  then have "\<lfloor>7 * w\<rfloor> * 86400000000 \<le> py_round x"
    using py_round_bounds[of x] by linarith
  then have lo: "\<lfloor>7 * w\<rfloor> \<le> py_round x div 86400000000"
    by (rule div_lower)
  have "(7 * w) * (86400000000::real) \<le> of_int \<lceil>7 * w\<rceil> * 86400000000"
    by (rule mult_right_mono) simp_all
  then have "x \<le> of_int (\<lceil>7 * w\<rceil> * 86400000000)"
    by (simp only: x of_int_mult of_int_numeral)
  then have "\<lceil>x\<rceil> \<le> \<lceil>7 * w\<rceil> * 86400000000"
    by (simp only: ceiling_le_iff)
  then have "py_round x \<le> \<lceil>7 * w\<rceil> * 86400000000"
    using py_round_bounds[of x] by linarith
  then have hi: "py_round x div 86400000000 \<le> \<lceil>7 * w\<rceil>"
    by (rule div_upper)
  from lo hi show ?thesis unfolding x_def by blast
qed

text \<open>
  In days: a forecast date lies between today plus \<open>7 * remaining_sp / velocity\<close> days rounded
  down and the same rounded up.
\<close>

lemma forecast_date_bounds:
  assumes "calculate_metrics clk epic = Inr m"
    and "velocity_sp_per_week m = Some v" and "forecast_date m = Some d"
  shows "today clk + \<lfloor>7 * (remaining_sp m / v)\<rfloor> \<le> d
       \<and> d \<le> today clk + \<lceil>7 * (remaining_sp m / v)\<rceil>"
proof -
  from calculate_metrics_forecast[OF assms(1)] assms(2,3)
  have "d = today clk + py_round (remaining_sp m / v * 604800000000) div 86400000000"
    by (simp split: if_splits)
  with timedelta_days_bounds[of "remaining_sp m / v"] show ?thesis
    by simp
qed

section \<open>The claims at the fixtures\<close>

theorem empty_epic_default_metrics_witness:
  "children epic_empty = []
   \<and> calculate_metrics test_clock epic_empty =
     Inr \<lparr>total_issues = 0, completed_issues = 0, open_issues = 0, unestimated_issues = 0,
      total_sp = 0, completed_sp = 0, remaining_sp = 0, progress = 0,
      avg_cycle_time_days = None, velocity_sp_per_week = None, scope_change_pct = None,
      blocked_issues = 0, forecast_date = None,
      dates = [], total_sp_over_time = [], completed_sp_over_time = [],
      cumulative_issues = [], cumulative_unestimated = []\<rparr>"
proof -
  have h: "children epic_empty = []"
    by (simp add: epic_empty_def make_epic_def)
  from h empty_epic_default_metrics[OF h, of test_clock] show ?thesis by simp
qed

theorem progress_formula_witness:
  "calculate_metrics test_clock epic_unpointed = Inr metrics_unpointed
   \<and> total_sp metrics_unpointed = 0
   \<and> progress metrics_unpointed = 50
   \<and> calculate_metrics test_clock epic_partial = Inr metrics_partial
   \<and> total_sp metrics_partial = 10
   \<and> progress metrics_partial = 25"
proof -
  have u: "children epic_unpointed \<noteq> []" and p: "children epic_partial \<noteq> []"
    by (simp_all add: epic_unpointed_def epic_partial_def make_epic_def)
  from progress_formula[OF u calculate_metrics_unpointed] progress_formula[OF p calculate_metrics_partial]
  show ?thesis
    by (simp add: calculate_metrics_unpointed calculate_metrics_partial)
       (simp add: metrics_unpointed_def metrics_partial_def)
qed

theorem time_series_lengths_witness:
  "calculate_metrics test_clock epic_half_week = Inr metrics_half_week
   \<and> length (dates metrics_half_week) = 4
   \<and> length (total_sp_over_time metrics_half_week) = 4
   \<and> length (completed_sp_over_time metrics_half_week) = 4
   \<and> length (cumulative_issues metrics_half_week) = 4
   \<and> length (cumulative_unestimated metrics_half_week) = 4
   \<and> calculate_metrics test_clock epic_empty = Inr EpicMetrics_default
   \<and> dates EpicMetrics_default = []
   \<and> total_sp_over_time EpicMetrics_default = []
   \<and> completed_sp_over_time EpicMetrics_default = []
   \<and> cumulative_issues EpicMetrics_default = []
   \<and> cumulative_unestimated EpicMetrics_default = []"
proof -
  have d: "length (dates metrics_half_week) = 4" "dates EpicMetrics_default = []"
    by (simp_all add: metrics_half_week_def EpicMetrics_default_def)
  from time_series_lengths[OF calculate_metrics_half_week] time_series_lengths[OF calculate_metrics_empty] d
  show ?thesis
    by (simp add: calculate_metrics_half_week calculate_metrics_empty)
qed

text \<open>
  The claim as written is about every Epic. Story points are any float: with an issue of 5
  points created on one day and an issue of minus 3 points created on the next, the total
  story points over time are 5, 2, 2, 2.
\<close>

theorem time_series_decreases_with_negative_points:
  "calculate_metrics test_clock epic_negative = Inr metrics_negative
   \<and> total_sp_over_time metrics_negative = [5, 2, 2, 2]
   \<and> 0 + 1 < length (dates metrics_negative)
   \<and> \<not> total_sp_over_time metrics_negative ! 0 \<le> total_sp_over_time metrics_negative ! (0 + 1)"
  by (simp add: calculate_metrics_negative) (simp add: metrics_negative_def)

theorem time_series_nondecreasing_witness:
  "calculate_metrics test_clock epic_half_week = Inr metrics_half_week
   \<and> cumulative_issues metrics_half_week ! 0 \<le> cumulative_issues metrics_half_week ! 1
   \<and> cumulative_unestimated metrics_half_week ! 0 \<le> cumulative_unestimated metrics_half_week ! 1
   \<and> total_sp_over_time metrics_half_week ! 0 \<le> total_sp_over_time metrics_half_week ! 1
   \<and> completed_sp_over_time metrics_half_week ! 1 \<le> completed_sp_over_time metrics_half_week ! 2"
proof -
  have nn: "\<forall>c \<in> set (children epic_half_week). \<forall>x. story_points c = Some x \<longrightarrow> 0 \<le> x"
    by (simp add: epic_half_week_def make_epic_def make_issue_def)
  have tzm: "\<forall>d. tz test_clock (d + 1) - tz test_clock d \<le> day_us"
    by (simp add: test_clock_def day_us_def)
  have i: "0 + 1 < length (dates metrics_half_week)" "1 + 1 < length (dates metrics_half_week)"
    by (simp_all add: metrics_half_week_def)
  from time_series_nondecreasing[OF calculate_metrics_half_week i(1)] nn
  have a: "cumulative_issues metrics_half_week ! 0 \<le> cumulative_issues metrics_half_week ! (0 + 1)"
    "cumulative_unestimated metrics_half_week ! 0
       \<le> cumulative_unestimated metrics_half_week ! (0 + 1)"
    "total_sp_over_time metrics_half_week ! 0 \<le> total_sp_over_time metrics_half_week ! (0 + 1)"
    by blast+
  from time_series_nondecreasing[OF calculate_metrics_half_week i(2)] nn tzm
  have b: "completed_sp_over_time metrics_half_week ! 1
       \<le> completed_sp_over_time metrics_half_week ! (1 + 1)"
    by blast
  from a b show ?thesis
    by (simp add: calculate_metrics_half_week numeral_2_eq_2)
qed

theorem velocity_recent_done_witness:
  "calculate_metrics test_clock epic_stale = Inr metrics_stale
   \<and> completed_sp metrics_stale = 5
   \<and> velocity_sp_per_week metrics_stale = None
   \<and> calculate_metrics test_clock epic_half_week = Inr metrics_half_week
   \<and> recent_points test_clock 4 (children epic_half_week) = 8
   \<and> velocity_sp_per_week metrics_half_week = Some (8 / 4)"
proof -
  have none: "\<forall>c \<in> set (children epic_stale). \<not> done_in_window test_clock 4 c"
    by (simp add: epic_stale_def make_epic_def make_issue_def done_in_window_def
          test_clock_def utc_def noon_def)
  have pts: "recent_points test_clock 4 (children epic_half_week) = 8"
    by (simp add: epic_half_week_def make_epic_def make_issue_def done_in_window_def
          recent_points_def test_clock_def utc_def noon_def)
  have old: "completed_sp metrics_stale = 5"
    by (simp add: metrics_stale_def)
  from velocity_recent_done[OF calculate_metrics_stale] none
  have v1: "velocity_sp_per_week metrics_stale = None"
    by blast
  from velocity_recent_done[OF calculate_metrics_half_week] pts
  have v2: "velocity_sp_per_week metrics_half_week = Some (8 / 4)"
    by simp
  from v1 v2 pts old show ?thesis
    by (simp add: calculate_metrics_stale calculate_metrics_half_week)
qed

theorem scope_change_pct_formula_witness:
  "calculate_metrics test_clock epic_grown = Inr metrics_grown
   \<and> created_instants (children epic_grown) = [noon 738990, noon 738998]
   \<and> created_later (children epic_grown) = 1
   \<and> total_issues metrics_grown = 3
   \<and> scope_change_pct metrics_grown = Some (1 / 3 * 100)
   \<and> calculate_metrics test_clock epic_instant = Inr metrics_instant
   \<and> created_instants (children epic_instant) = [noon 738999]
   \<and> scope_change_pct metrics_instant = None"
proof -
  have ci: "created_instants (children epic_grown) = [noon 738990, noon 738998]"
    "created_instants (children epic_instant) = [noon 738999]"
    by (simp_all add: epic_grown_def epic_instant_def make_epic_def make_issue_def
          created_instants_def utc_def)
  have cl: "created_later (children epic_grown) = 1"
    by (simp add: created_later_def ci noon_def)
  have ti: "total_issues metrics_grown = 3"
    by (simp add: metrics_grown_def)
  from scope_change_pct_formula[OF calculate_metrics_grown] scope_change_pct_formula[OF calculate_metrics_instant] ci cl ti
  show ?thesis
    by (simp add: calculate_metrics_grown calculate_metrics_instant)
qed

theorem scope_change_pct_below_100_witness:
  "calculate_metrics test_clock epic_grown = Inr metrics_grown
   \<and> scope_change_pct metrics_grown = Some (100 / 3)
   \<and> (0::real) \<le> 100 / 3 \<and> (100::real) / 3 < 100"
proof -
  have s: "scope_change_pct metrics_grown = Some (100 / 3)"
    by (simp add: metrics_grown_def)
  from scope_change_pct_below_100[OF calculate_metrics_grown s] s show ?thesis
    by (simp add: calculate_metrics_grown)
qed

end
